theory Spec2Isabelle
  imports Complex_Main "HOL-Library.Word"
begin

section \<open>The sample application harness of samples/sample_util/SampleApplication.cpp\<close>

text \<open>
  The harness owns an OS window and an EGL window, parses one command-line flag into a
  back-end selection, and drives the prepare / iterate / tear-down life cycle of a sample.
  The embedding follows the source function by function. Mutation of \<open>this\<close> is
  explicit state passing over the record \<open>app\<close>; the C strings are \<open>string\<close>s; the
  \<open>int\<close> results are \<open>int\<close>; the \<open>uint32_t\<close> sizes are \<open>32 word\<close>; the \<open>double\<close> times
  are \<open>real\<close> (no claim below depends on rounding).
\<close>

subsection \<open>The C library on strings\<close>

text \<open>
  A C string is the list of its characters before the terminator; none of them is NUL, so
  the terminator compares below every character. Only the sign of the result of
  \<open>strcmp\<close> and \<open>strncmp\<close> is fixed by the C standard.
\<close>

definition strlen :: "string \<Rightarrow> nat" where
  "strlen s = length s"

fun strcmp :: "string \<Rightarrow> string \<Rightarrow> int" where
  "strcmp [] [] = 0"
| "strcmp [] (y # ys) = - 1"
| "strcmp (x # xs) [] = 1"
| "strcmp (x # xs) (y # ys) =
     (if x = y then strcmp xs ys
      else if (of_char x :: nat) < of_char y then - 1 else 1)"

fun strncmp :: "string \<Rightarrow> string \<Rightarrow> nat \<Rightarrow> int" where
  "strncmp xs ys 0 = 0"
| "strncmp [] [] (Suc n) = 0"
| "strncmp [] (y # ys) (Suc n) = - 1"
| "strncmp (x # xs) [] (Suc n) = 1"
| "strncmp (x # xs) (y # ys) (Suc n) =
     (if x = y then strncmp xs ys n
      else if (of_char x :: nat) < of_char y then - 1 else 1)"

subsection \<open>Back-end selection\<close>

text \<open>
  Modelled from the spec: the EGL enumerants (\<open>EGLint\<close> macros of the EGL headers, which are
  not part of this file) are kept symbolic, one constructor per macro the file names.
\<close>

datatype EGLenum =
    EGL_PLATFORM_ANGLE_TYPE_DEFAULT_ANGLE
  | EGL_PLATFORM_ANGLE_TYPE_D3D9_ANGLE
  | EGL_PLATFORM_ANGLE_TYPE_D3D11_ANGLE
  | EGL_PLATFORM_ANGLE_TYPE_OPENGL_ANGLE
  | EGL_PLATFORM_ANGLE_TYPE_OPENGLES_ANGLE
  | EGL_PLATFORM_ANGLE_TYPE_NULL_ANGLE
  | EGL_PLATFORM_ANGLE_TYPE_VULKAN_ANGLE
  | EGL_PLATFORM_ANGLE_DEVICE_TYPE_HARDWARE_ANGLE
  | EGL_PLATFORM_ANGLE_DEVICE_TYPE_SWIFTSHADER_ANGLE

definition kUseAngleArg :: string where
  "kUseAngleArg = ''--use-angle=''"

type_synonym DisplayTypeInfo = "string \<times> EGLenum"

definition kDisplayTypes :: "DisplayTypeInfo list" where
  "kDisplayTypes =
     [(''d3d9'', EGL_PLATFORM_ANGLE_TYPE_D3D9_ANGLE),
      (''d3d11'', EGL_PLATFORM_ANGLE_TYPE_D3D11_ANGLE),
      (''gl'', EGL_PLATFORM_ANGLE_TYPE_OPENGL_ANGLE),
      (''gles'', EGL_PLATFORM_ANGLE_TYPE_OPENGLES_ANGLE),
      (''null'', EGL_PLATFORM_ANGLE_TYPE_NULL_ANGLE),
      (''vulkan'', EGL_PLATFORM_ANGLE_TYPE_VULKAN_ANGLE),
      (''swiftshader'', EGL_PLATFORM_ANGLE_TYPE_VULKAN_ANGLE)]"

text \<open>
  The range-for of \<open>GetDisplayTypeFromArg\<close> over a table; the result is the returned
  enumerant together with the line written to \<open>std::cout\<close>.
\<close>

fun scanDisplayTypes :: "DisplayTypeInfo list \<Rightarrow> string \<Rightarrow> EGLenum \<times> string" where
  "scanDisplayTypes [] displayTypeArg =
     (EGL_PLATFORM_ANGLE_TYPE_DEFAULT_ANGLE, ''Unknown ANGLE back-end API: '' @ displayTypeArg)"
| "scanDisplayTypes (displayTypeInfo # rest) displayTypeArg =
     (if strcmp (fst displayTypeInfo) displayTypeArg = 0
      then (snd displayTypeInfo, ''Using ANGLE back-end API: '' @ fst displayTypeInfo)
      else scanDisplayTypes rest displayTypeArg)"

definition GetDisplayTypeFromArg :: "string \<Rightarrow> EGLenum \<times> string" where
  "GetDisplayTypeFromArg displayTypeArg = scanDisplayTypes kDisplayTypes displayTypeArg"

definition GetDeviceTypeFromArg :: "string \<Rightarrow> EGLenum" where
  "GetDeviceTypeFromArg displayTypeArg =
     (if strcmp displayTypeArg ''swiftshader'' = 0
      then EGL_PLATFORM_ANGLE_DEVICE_TYPE_SWIFTSHADER_ANGLE
      else EGL_PLATFORM_ANGLE_DEVICE_TYPE_HARDWARE_ANGLE)"

subsection \<open>The collaborators\<close>

text \<open>
  Modelled from the spec: the window collaborator, the context collaborator, the timer and
  the event type are declared outside this file. Each is a record of what the harness can
  observe of it: the answers it gives, its pending event queue, and the events and clock
  readings it will deliver later. Of the event kinds only \<open>EVENT_CLOSED\<close> is named here;
  the others are \<open>EVENT_OTHER k\<close>.
\<close>

datatype EventType = EVENT_CLOSED | EVENT_OTHER nat

record Event =
  Type :: EventType

record EGLPlatformParameters =
  renderer :: EGLenum
  deviceType :: EGLenum

record ConfigParameters =
  redBits :: int
  greenBits :: int
  blueBits :: int
  alphaBits :: int
  depthBits :: int
  stencilBits :: int

record OSWindow =
  initialize_ok :: bool             \<comment> \<open>the answer of \<open>initialize(name, width, height)\<close>\<close>
  own_loop :: bool                  \<comment> \<open>the answer of \<open>hasOwnLoop()\<close>\<close>
  visible :: bool
  events :: "Event list"            \<comment> \<open>the pending queue, front first\<close>
  pumps :: nat                      \<comment> \<open>how often \<open>messageLoop()\<close> has run\<close>
  arrivals :: "nat \<Rightarrow> Event list"   \<comment> \<open>the events the k-th \<open>messageLoop()\<close> delivers\<close>

record EGLWindow =
  glesMajorVersion :: int
  glesMinorVersion :: int
  initializeGL_ok :: bool           \<comment> \<open>the answer of \<open>initializeGL(...)\<close>\<close>
  setSwapInterval_ok :: bool        \<comment> \<open>the answer of \<open>setSwapInterval(0)\<close>\<close>

record Timer =
  started :: bool
  queries :: nat                    \<comment> \<open>how often the clock has been read\<close>
  reading :: "nat \<Rightarrow> real"         \<comment> \<open>the k-th value of \<open>getElapsedTime()\<close>\<close>

text \<open>
  Every call the harness makes to a collaborator or to a user hook is logged, in order,
  with its arguments (for \<open>popEvent\<close>: with the event it delivered, if any).
\<close>

datatype call =
    OSWindow_initialize string "32 word" "32 word"
  | OSWindow_setVisible bool
  | OSWindow_hasOwnLoop
  | OSWindow_runOwnLoop
  | OSWindow_popEvent "Event option"
  | OSWindow_messageLoop
  | OSWindow_destroy
  | EGLWindow_initializeGL EGLPlatformParameters ConfigParameters
  | EGLWindow_setSwapInterval int
  | EGLWindow_swap
  | EGLWindow_destroyGL
  | LoadGLES
  | Timer_start
  | Timer_getElapsedTime
  | Hook_initialize
  | Hook_step real real
  | Hook_draw
  | Hook_destroy

subsection \<open>The application object\<close>

text \<open>
  \<open>sample\<close> is the state of the derived class, on which the virtual hooks act; \<open>cout\<close> is
  what has been written to \<open>std::cout\<close>; \<open>calls\<close> is the log of the collaborator and hook
  calls made by the constructor, \<open>prepareToRun\<close>, \<open>runIteration\<close> and \<open>run\<close>.
  The harness's own fields can only be changed by the harness's own member functions.
\<close>

record 'u app =
  mName :: string
  mWidth :: "32 word"
  mHeight :: "32 word"
  mRunning :: bool
  mPrevTime :: real
  mTimer :: Timer
  mPlatformParams :: EGLPlatformParameters
  mEntryPointsLib :: "nat option"
  mEGLWindow :: EGLWindow
  mOSWindow :: OSWindow
  sample :: 'u
  cout :: "string list"
  calls :: "call list"

text \<open>
  The virtual member functions a sample overrides. A hook is a member function of the
  application object: besides working on the derived class's own state it can call the
  harness's public members \<open>exit()\<close> and \<open>popEvent()\<close>. Its body is therefore a sequence of
  such calls, each \<open>popEvent\<close> handing the event it delivered (if any) to the rest of the
  body, that ends by returning the hook's result. A hook takes the derived class's state
  and returns the new one (\<open>initialize\<close>: together with the value it reports).
\<close>

datatype 'r body =
    Return 'r
  | CallExit "'r body"
  | CallPopEvent "Event option \<Rightarrow> 'r body"

record 'u hooks =
  initialize :: "'u \<Rightarrow> (bool \<times> 'u) body"
  destroy :: "'u \<Rightarrow> 'u body"
  step :: "real \<Rightarrow> real \<Rightarrow> 'u \<Rightarrow> 'u body"
  draw :: "'u \<Rightarrow> 'u body"

text \<open>The base class's own hooks: \<open>initialize\<close> returns true, the others do nothing.\<close>

definition SampleApplication_hooks :: "'u hooks" where
  "SampleApplication_hooks =
     \<lparr>initialize = (\<lambda>u. Return (True, u)), destroy = (\<lambda>u. Return u),
      step = (\<lambda>dt totalTime u. Return u), draw = (\<lambda>u. Return u)\<rparr>"

definition logged :: "call \<Rightarrow> 'u app \<Rightarrow> 'u app" where
  "logged c s = s\<lparr>calls := calls s @ [c]\<rparr>"

text \<open>
  What the environment hands to the constructor: the default-constructed platform
  parameters, the result of opening the EGL library, the objects \<open>OSWindow::New()\<close> and
  \<open>EGLWindow::New(major, minor)\<close> return, the timer, the indeterminate initial value of
  \<open>mPrevTime\<close>, and the derived class's initial state.
\<close>

record 'u environment =
  defaultParams :: EGLPlatformParameters
  openedLibrary :: "nat option"
  newOSWindow :: OSWindow
  newEGLWindow :: EGLWindow
  newTimer :: Timer
  indeterminate :: real
  derived :: 'u

text \<open>The constructor; \<open>argc\<close> is the length of \<open>argv\<close>, as \<open>main\<close> receives them.\<close>

definition SampleApplication ::
  "string \<Rightarrow> string list \<Rightarrow> int \<Rightarrow> int \<Rightarrow> 32 word \<Rightarrow> 32 word \<Rightarrow> 'u environment \<Rightarrow> 'u app" where
  "SampleApplication name argv glesMajor glesMinor width height env =
     (let argc = int (length argv);
          s = \<lparr>mName = name, mWidth = width, mHeight = height, mRunning = False,
               mPrevTime = indeterminate env, mTimer = newTimer env,
               mPlatformParams = (defaultParams env)\<lparr>renderer := EGL_PLATFORM_ANGLE_TYPE_DEFAULT_ANGLE\<rparr>,
               mEntryPointsLib = openedLibrary env,
               mEGLWindow = (newEGLWindow env)\<lparr>glesMajorVersion := glesMajor,
                                               glesMinorVersion := glesMinor\<rparr>,
               mOSWindow = newOSWindow env,
               sample = derived env, cout = [], calls = []\<rparr>
      in if argc > 1 \<and> strncmp (argv ! 1) kUseAngleArg (strlen kUseAngleArg) = 0
         then (let arg = drop (strlen kUseAngleArg) (argv ! 1);
                   found = GetDisplayTypeFromArg arg
               in s\<lparr>mPlatformParams := (mPlatformParams s)\<lparr>renderer := fst found,
                                          deviceType := GetDeviceTypeFromArg arg\<rparr>,
                    cout := cout s @ [snd found]\<rparr>)
         else s)"

subsection \<open>The member functions\<close>

definition exit :: "'u app \<Rightarrow> 'u app" where
  "exit s = s\<lparr>mRunning := False\<rparr>"

definition swap :: "'u app \<Rightarrow> 'u app" where
  "swap s = logged EGLWindow_swap s"

definition popEvent :: "'u app \<Rightarrow> Event option \<times> 'u app" where
  "popEvent s =
     (case events (mOSWindow s) of
        [] \<Rightarrow> (None, logged (OSWindow_popEvent None) s)
      | e # es \<Rightarrow>
          (Some e, logged (OSWindow_popEvent (Some e)) (s\<lparr>mOSWindow := (mOSWindow s)\<lparr>events := es\<rparr>\<rparr>)))"

text \<open>
  Running the body of a hook on the application: its calls of \<open>exit()\<close> and \<open>popEvent()\<close>
  are the member functions above. What a hook calls is not entered in \<open>calls\<close>, which logs
  the calls made by the life-cycle functions themselves.
\<close>

primrec runBody :: "'r body \<Rightarrow> 'u app \<Rightarrow> 'r \<times> 'u app" where
  "runBody (Return r) s = (r, s)"
| "runBody (CallExit rest) s = runBody rest (exit s)"
| "runBody (CallPopEvent rest) s =
     (case popEvent s of (event, s') \<Rightarrow> runBody (rest event) (s'\<lparr>calls := calls s\<rparr>))"

definition getElapsedTime :: "'u app \<Rightarrow> real \<times> 'u app" where
  "getElapsedTime s =
     (reading (mTimer s) (queries (mTimer s)),
      logged Timer_getElapsedTime (s\<lparr>mTimer := (mTimer s)\<lparr>queries := Suc (queries (mTimer s))\<rparr>\<rparr>))"

definition messageLoop :: "'u app \<Rightarrow> 'u app" where
  "messageLoop s =
     (let w = mOSWindow s
      in logged OSWindow_messageLoop
           (s\<lparr>mOSWindow := w\<lparr>events := events w @ arrivals w (pumps w), pumps := Suc (pumps w)\<rparr>\<rparr>))"

definition prepareToRun :: "'u hooks \<Rightarrow> 'u app \<Rightarrow> int \<times> 'u app" where
  "prepareToRun h s0 =
     (let s1 = logged (OSWindow_setVisible True) (s0\<lparr>mOSWindow := (mOSWindow s0)\<lparr>visible := True\<rparr>\<rparr>);
          configParams = \<lparr>redBits = 8, greenBits = 8, blueBits = 8, alphaBits = 8,
                          depthBits = 24, stencilBits = 8\<rparr>;
          s2 = logged (EGLWindow_initializeGL (mPlatformParams s1) configParams) s1
      in if \<not> initializeGL_ok (mEGLWindow s2) then (- 1, s2)
         else
           (let s3 = logged (EGLWindow_setSwapInterval 0) s2
            in if \<not> setSwapInterval_ok (mEGLWindow s3) then (- 1, s3)
               else
                 (let s4 = logged LoadGLES s3;
                      s5 = s4\<lparr>mRunning := True\<rparr>;
                      (r, s6) = runBody (initialize h (sample s5)) s5;
                      s7 = logged Hook_initialize (s6\<lparr>sample := snd r\<rparr>)
                  in if \<not> fst r then (- 1, s7\<lparr>mRunning := False\<rparr>)
                     else
                       (let s8 = logged Timer_start (s7\<lparr>mTimer := (mTimer s7)\<lparr>started := True\<rparr>\<rparr>)
                        in (0, s8\<lparr>mPrevTime := 0\<rparr>)))))"

text \<open>The loop \<open>while (popEvent(&event)) { if (event.Type == EVENT_CLOSED) exit(); }\<close>.\<close>

function drainEvents :: "'u app \<Rightarrow> 'u app" where
  "drainEvents s =
     (case popEvent s of
        (None, s') \<Rightarrow> s'
      | (Some event, s') \<Rightarrow>
          drainEvents (if Type event = EVENT_CLOSED then exit s' else s'))"
  by pat_completeness auto
termination
  by (relation "measure (\<lambda>s. length (events (mOSWindow s)))")
     (auto simp: popEvent_def exit_def logged_def split: list.splits)

declare drainEvents.simps [simp del]

definition runIteration :: "'u hooks \<Rightarrow> 'u app \<Rightarrow> int \<times> 'u app" where
  "runIteration h s0 =
     (let (elapsedTime, s1) = getElapsedTime s0;
          deltaTime = elapsedTime - mPrevTime s1;
          (stepped, s2) = runBody (step h deltaTime elapsedTime (sample s1)) s1;
          s3 = logged (Hook_step deltaTime elapsedTime) (s2\<lparr>sample := stepped\<rparr>);
          s4 = drainEvents s3
      in if \<not> mRunning s4 then (0, s4)
         else
           (let (drawn, s5) = runBody (draw h (sample s4)) s4;
                s6 = logged Hook_draw (s5\<lparr>sample := drawn\<rparr>);
                s7 = swap s6;
                s8 = messageLoop s7
            in (0, s8\<lparr>mPrevTime := elapsedTime\<rparr>)))"

text \<open>
  The loop \<open>while (mRunning) { runIteration(); }\<close> may run forever; \<open>None\<close> is "not
  finished within the given number of iterations".
\<close>

fun runLoop :: "'u hooks \<Rightarrow> nat \<Rightarrow> 'u app \<Rightarrow> 'u app option" where
  "runLoop h 0 s = (if mRunning s then None else Some s)"
| "runLoop h (Suc n) s =
     (if mRunning s then runLoop h n (snd (runIteration h s)) else Some s)"

text \<open>
  \<open>runOwnLoop\<close> belongs to the window collaborator; it receives the two delegates and may
  not return. Inside \<open>run\<close>, \<open>Inl\<close> is a \<open>return\<close> statement taken before the tear-down and
  \<open>Inr\<close> is falling through to it.
\<close>

type_synonym 'u delegate = "'u app \<Rightarrow> int \<times> 'u app"

type_synonym 'u ownLoop = "'u delegate \<Rightarrow> 'u delegate \<Rightarrow> 'u app \<Rightarrow> (int \<times> 'u app) option"

definition teardown :: "'u hooks \<Rightarrow> 'u app \<Rightarrow> 'u app" where
  "teardown h s =
     (let (destroyed, s1) = runBody (destroy h (sample s)) s;
          s2 = logged Hook_destroy (s1\<lparr>sample := destroyed\<rparr>);
          s3 = logged EGLWindow_destroyGL s2
      in logged OSWindow_destroy s3)"

definition loopPhase ::
  "'u hooks \<Rightarrow> 'u ownLoop \<Rightarrow> nat \<Rightarrow> 'u app \<Rightarrow> ((int \<times> 'u app) + (int \<times> 'u app)) option" where
  "loopPhase h runOwnLoop fuel s0 =
     (let s1 = logged OSWindow_hasOwnLoop s0
      in if own_loop (mOSWindow s1)
         then (case runOwnLoop (prepareToRun h) (runIteration h) (logged OSWindow_runOwnLoop s1) of
                 None \<Rightarrow> None
               | Some (result, s2) \<Rightarrow> Some (Inr (result, s2)))
         else (let (result, s2) = prepareToRun h s1
               in if result \<noteq> 0 then Some (Inl (result, s2))
                  else (case runLoop h fuel s2 of
                          None \<Rightarrow> None
                        | Some s3 \<Rightarrow> Some (Inr (result, s3)))))"

definition run :: "'u hooks \<Rightarrow> 'u ownLoop \<Rightarrow> nat \<Rightarrow> 'u app \<Rightarrow> (int \<times> 'u app) option" where
  "run h runOwnLoop fuel s0 =
     (let s1 = logged (OSWindow_initialize (mName s0) (mWidth s0) (mHeight s0)) s0
      in if \<not> initialize_ok (mOSWindow s1) then Some (- 1, s1)
         else (case loopPhase h runOwnLoop fuel s1 of
                 None \<Rightarrow> None
               | Some (Inl returned) \<Rightarrow> Some returned
               | Some (Inr (result, s2)) \<Rightarrow> Some (result, teardown h s2)))"

subsection \<open>Observing a call\<close>

text \<open>
  The collaborator and hook calls made between two states of the same application, the
  clock value an iteration reads, and whether a close event is waiting in the window's
  queue or was delivered by \<open>popEvent\<close> between two states.
\<close>

definition callsDuring :: "'u app \<Rightarrow> 'u app \<Rightarrow> call list" where
  "callsDuring s s' = drop (length (calls s)) (calls s')"

definition elapsedNow :: "'u app \<Rightarrow> real" where
  "elapsedNow s = fst (getElapsedTime s)"

definition closeQueued :: "'u app \<Rightarrow> bool" where
  "closeQueued s = list_ex (\<lambda>e. Type e = EVENT_CLOSED) (events (mOSWindow s))"

fun isClosePop :: "call \<Rightarrow> bool" where
  "isClosePop (OSWindow_popEvent (Some event)) = (Type event = EVENT_CLOSED)"
| "isClosePop c = False"

definition closePopped :: "'u app \<Rightarrow> 'u app \<Rightarrow> bool" where
  "closePopped s s' = list_ex isClosePop (callsDuring s s')"

subsection \<open>What a hook does\<close>

text \<open>
  The value a hook body returns, whether it calls \<open>exit()\<close>, and the queue it leaves, when
  it runs against a given queue of pending events. For an iteration: the body of \<open>step\<close>,
  whether it calls \<open>exit()\<close>, the queue the drain then finds and whether a close event is in
  it, and the body of \<open>draw\<close>, which runs after the drain has emptied the queue.
\<close>

primrec bodyResult :: "'r body \<Rightarrow> Event list \<Rightarrow> 'r" where
  "bodyResult (Return r) q = r"
| "bodyResult (CallExit rest) q = bodyResult rest q"
| "bodyResult (CallPopEvent rest) q =
     (case q of [] \<Rightarrow> bodyResult (rest None) [] | e # es \<Rightarrow> bodyResult (rest (Some e)) es)"

primrec bodyExits :: "'r body \<Rightarrow> Event list \<Rightarrow> bool" where
  "bodyExits (Return r) q = False"
| "bodyExits (CallExit rest) q = True"
| "bodyExits (CallPopEvent rest) q =
     (case q of [] \<Rightarrow> bodyExits (rest None) [] | e # es \<Rightarrow> bodyExits (rest (Some e)) es)"

primrec bodyLeaves :: "'r body \<Rightarrow> Event list \<Rightarrow> Event list" where
  "bodyLeaves (Return r) q = q"
| "bodyLeaves (CallExit rest) q = bodyLeaves rest q"
| "bodyLeaves (CallPopEvent rest) q =
     (case q of [] \<Rightarrow> bodyLeaves (rest None) [] | e # es \<Rightarrow> bodyLeaves (rest (Some e)) es)"

definition initializeBody :: "'u hooks \<Rightarrow> 'u app \<Rightarrow> (bool \<times> 'u) body" where
  "initializeBody h s = initialize h (sample s)"

definition initializeReports :: "'u hooks \<Rightarrow> 'u app \<Rightarrow> bool" where
  "initializeReports h s = fst (bodyResult (initializeBody h s) (events (mOSWindow s)))"

definition initializeExits :: "'u hooks \<Rightarrow> 'u app \<Rightarrow> bool" where
  "initializeExits h s = bodyExits (initializeBody h s) (events (mOSWindow s))"

definition stepBody :: "'u hooks \<Rightarrow> 'u app \<Rightarrow> 'u body" where
  "stepBody h s = step h (elapsedNow s - mPrevTime s) (elapsedNow s) (sample s)"

definition stepExits :: "'u hooks \<Rightarrow> 'u app \<Rightarrow> bool" where
  "stepExits h s = bodyExits (stepBody h s) (events (mOSWindow s))"

definition drainQueue :: "'u hooks \<Rightarrow> 'u app \<Rightarrow> Event list" where
  "drainQueue h s = bodyLeaves (stepBody h s) (events (mOSWindow s))"

definition closeAtDrain :: "'u hooks \<Rightarrow> 'u app \<Rightarrow> bool" where
  "closeAtDrain h s = list_ex (\<lambda>e. Type e = EVENT_CLOSED) (drainQueue h s)"

definition drawBody :: "'u hooks \<Rightarrow> 'u app \<Rightarrow> 'u body" where
  "drawBody h s = draw h (bodyResult (stepBody h s) (events (mOSWindow s)))"

definition drawExits :: "'u hooks \<Rightarrow> 'u app \<Rightarrow> bool" where
  "drawExits h s = bodyExits (drawBody h s) []"

subsection \<open>Life-cycle histories\<close>

text \<open>
  A history is a sequence of member-function calls on one application object, interleaved
  with arbitrary changes of the collaborators and of the derived class's state
  (\<open>Outside\<close>). What is observed of each step, in the order in which it happens:
  \<^item> of \<open>prepareToRun\<close>: \<open>Exited\<close> if \<open>initialize\<close> was reached and called \<open>exit()\<close>, and
    whether the call returned 0 (\<open>Prepared\<close>) or not;
  \<^item> of \<open>runIteration\<close>: \<open>Exited\<close> if \<open>step\<close> called \<open>exit()\<close>; \<open>CloseSeen\<close> if a close event
    was in the queue when the drain began, \<open>Iterated\<close> otherwise; \<open>Exited\<close> if \<open>draw\<close>
    was reached and called \<open>exit()\<close>;
  \<^item> of \<open>exit()\<close>: \<open>Exited\<close>.
  The observations are read off the state before the step and the hooks, except for the
  result of \<open>prepareToRun\<close>.
\<close>

datatype 'u operation =
    PrepareToRun
  | RunIteration
  | Exit
  | Outside OSWindow EGLWindow Timer 'u

datatype observation = Prepared | PrepareFailed | Iterated | CloseSeen | Exited | Elsewhere

fun perform :: "'u hooks \<Rightarrow> 'u operation \<Rightarrow> 'u app \<Rightarrow> 'u app" where
  "perform h PrepareToRun s = snd (prepareToRun h s)"
| "perform h RunIteration s = snd (runIteration h s)"
| "perform h Exit s = exit s"
| "perform h (Outside w g t u) s = s\<lparr>mOSWindow := w, mEGLWindow := g, mTimer := t, sample := u\<rparr>"

fun observe :: "'u hooks \<Rightarrow> 'u operation \<Rightarrow> 'u app \<Rightarrow> observation list" where
  "observe h PrepareToRun s =
     (if initializeGL_ok (mEGLWindow s) \<and> setSwapInterval_ok (mEGLWindow s)
         \<and> initializeExits h s then [Exited] else [])
     @ (if fst (prepareToRun h s) = 0 then [Prepared] else [PrepareFailed])"
| "observe h RunIteration s =
     (if stepExits h s then [Exited] else [])
     @ (if closeAtDrain h s then [CloseSeen] else [Iterated])
     @ (if mRunning s \<and> \<not> stepExits h s \<and> \<not> closeAtDrain h s \<and> drawExits h s
        then [Exited] else [])"
| "observe h Exit s = [Exited]"
| "observe h (Outside w g t u) s = [Elsewhere]"

fun history :: "'u hooks \<Rightarrow> 'u operation list \<Rightarrow> 'u app \<Rightarrow> observation list \<times> 'u app" where
  "history h [] s = ([], s)"
| "history h (operation # rest) s =
     (let later = history h rest (perform h operation s)
      in (observe h operation s @ fst later, snd later))"

subsection \<open>A concrete sample\<close>

text \<open>
  A sample started as \<open>prog --use-angle=vulkan\<close> on a window that drives no loop of its
  own. The first pump of the message loop delivers a key event and a close event; the
  clock reads 1, 2, 3, ... The variants: the context cannot be initialised; the window
  owns the loop; the sample's \<open>initialize\<close> reports failure, or calls \<open>exit()\<close>.
\<close>

definition exampleArrivals :: "nat \<Rightarrow> Event list" where
  "exampleArrivals k = (if k = 0 then [\<lparr>Type = EVENT_OTHER 0\<rparr>, \<lparr>Type = EVENT_CLOSED\<rparr>] else [])"

definition exampleClock :: "nat \<Rightarrow> real" where
  "exampleClock k = real (Suc k)"

definition exampleEnvironment :: "unit environment" where
  "exampleEnvironment =
     \<lparr>defaultParams = \<lparr>renderer = EGL_PLATFORM_ANGLE_TYPE_DEFAULT_ANGLE,
                       deviceType = EGL_PLATFORM_ANGLE_DEVICE_TYPE_HARDWARE_ANGLE\<rparr>,
      openedLibrary = Some 1,
      newOSWindow = \<lparr>initialize_ok = True, own_loop = False, visible = False, events = [],
                     pumps = 0, arrivals = exampleArrivals\<rparr>,
      newEGLWindow = \<lparr>glesMajorVersion = 0, glesMinorVersion = 0, initializeGL_ok = True,
                      setSwapInterval_ok = True\<rparr>,
      newTimer = \<lparr>started = False, queries = 0, reading = exampleClock\<rparr>,
      indeterminate = 0,
      derived = ()\<rparr>"

definition exampleApp :: "unit app" where
  "exampleApp =
     SampleApplication ''hello_triangle'' [''prog'', ''--use-angle=vulkan''] 2 0 1280 720
       exampleEnvironment"

definition exampleNoContext :: "unit app" where
  "exampleNoContext = exampleApp\<lparr>mEGLWindow := (mEGLWindow exampleApp)\<lparr>initializeGL_ok := False\<rparr>\<rparr>"

definition exampleOwnLoopApp :: "unit app" where
  "exampleOwnLoopApp = exampleApp\<lparr>mOSWindow := (mOSWindow exampleApp)\<lparr>own_loop := True\<rparr>\<rparr>"

definition failingHooks :: "unit hooks" where
  "failingHooks = SampleApplication_hooks\<lparr>initialize := (\<lambda>u. Return (False, u))\<rparr>"

text \<open>A sample whose \<open>initialize\<close> calls \<open>exit()\<close> and then reports success.\<close>

definition exitingHooks :: "unit hooks" where
  "exitingHooks = SampleApplication_hooks\<lparr>initialize := (\<lambda>u. CallExit (Return (True, u)))\<rparr>"


text \<open>A window that owns the loop: it prepares and, on success, iterates once.\<close>

definition exampleOwnLoop :: "unit ownLoop" where
  "exampleOwnLoop prepare iterate s =
     (let (result, s1) = prepare s
      in if result \<noteq> 0 then Some (result, s1) else Some (result, snd (iterate s1)))"

definition exampleStarted :: "unit app" where
  "exampleStarted = snd (prepareToRun SampleApplication_hooks exampleApp)"

definition exampleClosing :: "unit app" where
  "exampleClosing = snd (runIteration SampleApplication_hooks exampleStarted)"

text \<open>The started sample after its context has stopped answering.\<close>

definition exampleContextLost :: "unit app" where
  "exampleContextLost =
     exampleStarted\<lparr>mEGLWindow := (mEGLWindow exampleStarted)\<lparr>initializeGL_ok := False\<rparr>\<rparr>"

definition exampleReady :: "unit app" where
  "exampleReady =
     logged OSWindow_hasOwnLoop (logged (OSWindow_initialize ''hello_triangle'' 1280 720) exampleApp)"

definition exampleFinished :: "unit app" where
  "exampleFinished =
     teardown SampleApplication_hooks
       (snd (runIteration SampleApplication_hooks
          (snd (runIteration SampleApplication_hooks
             (snd (prepareToRun SampleApplication_hooks exampleReady))))))"

definition exampleReturnedEarly :: "unit app" where
  "exampleReturnedEarly =
     snd (prepareToRun SampleApplication_hooks
       (logged OSWindow_hasOwnLoop
         (logged (OSWindow_initialize ''hello_triangle'' 1280 720) exampleNoContext)))"

definition exampleOwnLoopFinished :: "unit app" where
  "exampleOwnLoopFinished =
     teardown SampleApplication_hooks
       (snd (runIteration SampleApplication_hooks
          (snd (prepareToRun SampleApplication_hooks
             (logged OSWindow_runOwnLoop
               (logged OSWindow_hasOwnLoop
                 (logged (OSWindow_initialize ''hello_triangle'' 1280 720) exampleOwnLoopApp)))))))"

section \<open>Back-end selection\<close>

lemma strcmp_zero_iff: "strcmp a b = 0 \<longleftrightarrow> a = b"
  by (induction a b rule: strcmp.induct) auto

lemma strncmp_zero_iff: "strncmp a b n = 0 \<longleftrightarrow> take n a = take n b"
  by (induction a b n rule: strncmp.induct) auto

lemma strlen_kUseAngleArg: "strlen kUseAngleArg = 12"
  by (simp add: strlen_def kUseAngleArg_def)

lemma strncmp_kUseAngleArg:
  "strncmp a kUseAngleArg 12 = 0 \<longleftrightarrow> take 12 a = ''--use-angle=''"
proof -
  have "take 12 kUseAngleArg = ''--use-angle=''"
    by (simp add: kUseAngleArg_def)
  then show ?thesis
    by (simp only: strncmp_zero_iff)
qed

lemma scanDisplayTypes_find:
  "fst (scanDisplayTypes tbl arg) =
     (case List.find (\<lambda>info. fst info = arg) tbl of
        Some info \<Rightarrow> snd info
      | None \<Rightarrow> EGL_PLATFORM_ANGLE_TYPE_DEFAULT_ANGLE)"
  by (induction tbl) (auto simp: strcmp_zero_iff)

lemma scanDisplayTypes_absent:
  "arg \<notin> fst ` set tbl \<Longrightarrow>
     fst (scanDisplayTypes tbl arg) = EGL_PLATFORM_ANGLE_TYPE_DEFAULT_ANGLE"
  by (induction tbl) (auto simp: strcmp_zero_iff)

text \<open>
  C3. The table's names are, in order, d3d9, d3d11, gl, gles, null, vulkan, swiftshader.
  For every input string, \<open>GetDisplayTypeFromArg\<close> returns the renderer of the first table
  entry whose name equals the input (equality of the strings, so upper and lower case
  differ); every table name yields its paired renderer; and every string that equals no
  table name, the empty string among them, yields the default renderer.
\<close>

theorem GetDisplayTypeFromArg_first_match:
  "map fst kDisplayTypes =
     [''d3d9'', ''d3d11'', ''gl'', ''gles'', ''null'', ''vulkan'', ''swiftshader'']
   \<and> fst (GetDisplayTypeFromArg arg) =
       (case List.find (\<lambda>info. fst info = arg) kDisplayTypes of
          Some info \<Rightarrow> snd info
        | None \<Rightarrow> EGL_PLATFORM_ANGLE_TYPE_DEFAULT_ANGLE)
   \<and> (\<forall>info \<in> set kDisplayTypes. fst (GetDisplayTypeFromArg (fst info)) = snd info)
   \<and> (arg \<notin> set (map fst kDisplayTypes) \<longrightarrow>
        fst (GetDisplayTypeFromArg arg) = EGL_PLATFORM_ANGLE_TYPE_DEFAULT_ANGLE)
   \<and> fst (GetDisplayTypeFromArg []) = EGL_PLATFORM_ANGLE_TYPE_DEFAULT_ANGLE"
proof (intro conjI)
  show "map fst kDisplayTypes =
     [''d3d9'', ''d3d11'', ''gl'', ''gles'', ''null'', ''vulkan'', ''swiftshader'']"
    by (simp add: kDisplayTypes_def)
  show find: "fst (GetDisplayTypeFromArg arg) =
       (case List.find (\<lambda>info. fst info = arg) kDisplayTypes of
          Some info \<Rightarrow> snd info
        | None \<Rightarrow> EGL_PLATFORM_ANGLE_TYPE_DEFAULT_ANGLE)" for arg
    by (simp add: GetDisplayTypeFromArg_def scanDisplayTypes_find)
  show "\<forall>info \<in> set kDisplayTypes. fst (GetDisplayTypeFromArg (fst info)) = snd info"
    by (simp add: find) (simp add: kDisplayTypes_def)
  show "arg \<notin> set (map fst kDisplayTypes) \<longrightarrow>
        fst (GetDisplayTypeFromArg arg) = EGL_PLATFORM_ANGLE_TYPE_DEFAULT_ANGLE"
    by (simp add: GetDisplayTypeFromArg_def scanDisplayTypes_absent)
  show "fst (GetDisplayTypeFromArg []) = EGL_PLATFORM_ANGLE_TYPE_DEFAULT_ANGLE"
    by (simp add: find) (simp add: kDisplayTypes_def)
qed

theorem GetDisplayTypeFromArg_first_match_witness:
  "''Vulkan'' \<notin> set (map fst kDisplayTypes)
   \<and> fst (GetDisplayTypeFromArg ''Vulkan'') = EGL_PLATFORM_ANGLE_TYPE_DEFAULT_ANGLE
   \<and> (''swiftshader'', EGL_PLATFORM_ANGLE_TYPE_VULKAN_ANGLE) \<in> set kDisplayTypes
   \<and> fst (GetDisplayTypeFromArg ''swiftshader'') = EGL_PLATFORM_ANGLE_TYPE_VULKAN_ANGLE"
proof -
  have absent: "''Vulkan'' \<notin> set (map fst kDisplayTypes)"
    by (simp add: kDisplayTypes_def)
  have present: "(''swiftshader'', EGL_PLATFORM_ANGLE_TYPE_VULKAN_ANGLE) \<in> set kDisplayTypes"
    by (simp add: kDisplayTypes_def)
  note table = GetDisplayTypeFromArg_first_match [of "''Vulkan''"]
  from table have unknown: "''Vulkan'' \<notin> set (map fst kDisplayTypes) \<longrightarrow>
      fst (GetDisplayTypeFromArg ''Vulkan'') = EGL_PLATFORM_ANGLE_TYPE_DEFAULT_ANGLE"
    by (elim conjE)
  from table have known: "\<forall>info \<in> set kDisplayTypes. fst (GetDisplayTypeFromArg (fst info)) = snd info"
    by (elim conjE)
  from known present
  have "fst (GetDisplayTypeFromArg ''swiftshader'') = EGL_PLATFORM_ANGLE_TYPE_VULKAN_ANGLE"
    by fastforce
  with unknown absent present show ?thesis
    by simp
qed

text \<open>
  C4. \<open>GetDeviceTypeFromArg\<close> returns the SwiftShader (software emulation) device type if
  and only if its input is the string swiftshader; every other input, also a renderer name
  such as vulkan, yields the hardware device type.
\<close>

theorem GetDeviceTypeFromArg_swiftshader_only:
  "(GetDeviceTypeFromArg arg = EGL_PLATFORM_ANGLE_DEVICE_TYPE_SWIFTSHADER_ANGLE)
     = (arg = ''swiftshader'')
   \<and> (arg \<noteq> ''swiftshader'' \<longrightarrow>
        GetDeviceTypeFromArg arg = EGL_PLATFORM_ANGLE_DEVICE_TYPE_HARDWARE_ANGLE)
   \<and> GetDeviceTypeFromArg ''vulkan'' = EGL_PLATFORM_ANGLE_DEVICE_TYPE_HARDWARE_ANGLE"
  by (simp add: GetDeviceTypeFromArg_def strcmp_zero_iff)

theorem GetDeviceTypeFromArg_swiftshader_only_witness:
  "''gles'' \<noteq> ''swiftshader''
   \<and> GetDeviceTypeFromArg ''gles'' = EGL_PLATFORM_ANGLE_DEVICE_TYPE_HARDWARE_ANGLE
   \<and> GetDeviceTypeFromArg ''swiftshader'' = EGL_PLATFORM_ANGLE_DEVICE_TYPE_SWIFTSHADER_ANGLE"
  using GetDeviceTypeFromArg_swiftshader_only [of "''gles''"]
        GetDeviceTypeFromArg_swiftshader_only [of "''swiftshader''"]
  by simp

text \<open>
  C5. The constructor looks at \<open>argv[1]\<close> only, and only when it begins with
  \<open>--use-angle=\<close>: the platform parameters are the default ones with the renderer and the
  device type selected by the rest of that argument, and otherwise the default ones with
  the default renderer. With \<open>prog --use-angle=vulkan\<close> the renderer is Vulkan and the device
  type hardware; with \<open>prog --use-angle=swiftshader\<close> the renderer is Vulkan and the device
  type SwiftShader; with \<open>prog\<close> alone the renderer is the default one.
\<close>

theorem SampleApplication_parses_first_argument:
  "mPlatformParams (SampleApplication name argv major minor width height env) =
     (if 1 < length argv \<and> take 12 (argv ! 1) = ''--use-angle=''
      then (defaultParams env)
             \<lparr>renderer := fst (GetDisplayTypeFromArg (drop 12 (argv ! 1))),
              deviceType := GetDeviceTypeFromArg (drop 12 (argv ! 1))\<rparr>
      else (defaultParams env)\<lparr>renderer := EGL_PLATFORM_ANGLE_TYPE_DEFAULT_ANGLE\<rparr>)
   \<and> renderer (mPlatformParams
        (SampleApplication name [''prog'', ''--use-angle=vulkan''] major minor width height env))
       = EGL_PLATFORM_ANGLE_TYPE_VULKAN_ANGLE
   \<and> deviceType (mPlatformParams
        (SampleApplication name [''prog'', ''--use-angle=vulkan''] major minor width height env))
       = EGL_PLATFORM_ANGLE_DEVICE_TYPE_HARDWARE_ANGLE
   \<and> renderer (mPlatformParams
        (SampleApplication name [''prog'', ''--use-angle=swiftshader''] major minor width height env))
       = EGL_PLATFORM_ANGLE_TYPE_VULKAN_ANGLE
   \<and> deviceType (mPlatformParams
        (SampleApplication name [''prog'', ''--use-angle=swiftshader''] major minor width height env))
       = EGL_PLATFORM_ANGLE_DEVICE_TYPE_SWIFTSHADER_ANGLE
   \<and> renderer (mPlatformParams (SampleApplication name [''prog''] major minor width height env))
       = EGL_PLATFORM_ANGLE_TYPE_DEFAULT_ANGLE"
proof -
  have general: "mPlatformParams (SampleApplication name argv major minor width height env) =
     (if 1 < length argv \<and> take 12 (argv ! 1) = ''--use-angle=''
      then (defaultParams env)
             \<lparr>renderer := fst (GetDisplayTypeFromArg (drop 12 (argv ! 1))),
              deviceType := GetDeviceTypeFromArg (drop 12 (argv ! 1))\<rparr>
      else (defaultParams env)\<lparr>renderer := EGL_PLATFORM_ANGLE_TYPE_DEFAULT_ANGLE\<rparr>)" for argv
    by (simp add: SampleApplication_def Let_def strncmp_kUseAngleArg strlen_kUseAngleArg)
  have vulkan: "fst (GetDisplayTypeFromArg ''vulkan'') = EGL_PLATFORM_ANGLE_TYPE_VULKAN_ANGLE"
    by (simp add: GetDisplayTypeFromArg_def kDisplayTypes_def)
  have swiftshader: "fst (GetDisplayTypeFromArg ''swiftshader'') = EGL_PLATFORM_ANGLE_TYPE_VULKAN_ANGLE"
    by (simp add: GetDisplayTypeFromArg_def kDisplayTypes_def)
  show ?thesis
    by (simp add: general vulkan swiftshader GetDeviceTypeFromArg_def)
qed

theorem SampleApplication_parses_first_argument_witness:
  "mPlatformParams exampleApp =
     \<lparr>renderer = EGL_PLATFORM_ANGLE_TYPE_VULKAN_ANGLE,
      deviceType = EGL_PLATFORM_ANGLE_DEVICE_TYPE_HARDWARE_ANGLE\<rparr>"
proof -
  have "fst (GetDisplayTypeFromArg ''vulkan'') = EGL_PLATFORM_ANGLE_TYPE_VULKAN_ANGLE"
    by (simp add: GetDisplayTypeFromArg_def kDisplayTypes_def)
  moreover have "GetDeviceTypeFromArg ''vulkan'' = EGL_PLATFORM_ANGLE_DEVICE_TYPE_HARDWARE_ANGLE"
    by (simp add: GetDeviceTypeFromArg_def)
  ultimately show ?thesis
    using SampleApplication_parses_first_argument
      [of "''hello_triangle''" "[''prog'', ''--use-angle=vulkan'']" 2 0 1280 720 exampleEnvironment]
    by (simp add: exampleApp_def exampleEnvironment_def)
qed

section \<open>Hook bodies\<close>

text \<open>
  A hook body leaves the application as it found it, except that it may have cleared the
  running flag and taken events from the front of the queue.
\<close>

lemma runBody_eq:
  "runBody b s =
     (bodyResult b (events (mOSWindow s)),
      s\<lparr>mRunning := mRunning s \<and> \<not> bodyExits b (events (mOSWindow s)),
        mOSWindow := (mOSWindow s)\<lparr>events := bodyLeaves b (events (mOSWindow s))\<rparr>\<rparr>)"
proof (induction b arbitrary: s)
  case (Return r)
  show ?case by simp
next
  case (CallExit rest)
  show ?case by (simp add: CallExit.IH exit_def)
next
  case (CallPopEvent rest)
  show ?case
  proof (cases "events (mOSWindow s)")
    case Nil
    then show ?thesis
      by (simp add: popEvent_def logged_def CallPopEvent.IH)
  next
    case (Cons e es)
    then show ?thesis
      by (simp add: popEvent_def logged_def CallPopEvent.IH)
  qed
qed

lemma bodyLeaves_Nil: "bodyLeaves b [] = []"
  by (induction b) simp_all

lemma base_hooks:
  "initializeReports SampleApplication_hooks s"
  "\<not> initializeExits SampleApplication_hooks s"
  "bodyLeaves (initializeBody SampleApplication_hooks s) q = q"
  "\<not> stepExits SampleApplication_hooks s"
  "drainQueue SampleApplication_hooks s = events (mOSWindow s)"
  "closeAtDrain SampleApplication_hooks s = closeQueued s"
  "\<not> drawExits SampleApplication_hooks s"
  by (simp_all add: SampleApplication_hooks_def initializeReports_def initializeExits_def
      initializeBody_def stepExits_def stepBody_def drainQueue_def closeAtDrain_def
      closeQueued_def drawExits_def drawBody_def)

section \<open>The iteration\<close>

text \<open>
  The drain empties the queue, logs one \<open>popEvent\<close> per event and a last one that finds
  the queue empty, and clears the running flag when a close event was among them.
\<close>

lemma drainEvents_eq:
  "drainEvents s =
     s\<lparr>mRunning := mRunning s \<and> \<not> closeQueued s,
       mOSWindow := (mOSWindow s)\<lparr>events := []\<rparr>,
       calls := calls s @ map (\<lambda>e. OSWindow_popEvent (Some e)) (events (mOSWindow s))
                @ [OSWindow_popEvent None]\<rparr>"
proof (induction s rule: drainEvents.induct)
  case (1 s)
  show ?case
  proof (cases "events (mOSWindow s)")
    case Nil
    then show ?thesis
      by (subst drainEvents.simps) (simp add: popEvent_def logged_def closeQueued_def)
  next
    case (Cons e es)
    let ?popped = "logged (OSWindow_popEvent (Some e)) (s\<lparr>mOSWindow := (mOSWindow s)\<lparr>events := es\<rparr>\<rparr>)"
    let ?next = "if Type e = EVENT_CLOSED then exit ?popped else ?popped"
    have pop: "popEvent s = (Some e, ?popped)"
      using Cons by (simp add: popEvent_def)
    have unroll: "drainEvents s = drainEvents ?next"
      by (subst drainEvents.simps) (simp add: pop)
    have ih: "drainEvents ?next =
       ?next\<lparr>mRunning := mRunning ?next \<and> \<not> closeQueued ?next,
             mOSWindow := (mOSWindow ?next)\<lparr>events := []\<rparr>,
             calls := calls ?next @ map (\<lambda>e. OSWindow_popEvent (Some e)) (events (mOSWindow ?next))
                      @ [OSWindow_popEvent None]\<rparr>"
      by (rule "1.IH" [OF pop [symmetric] refl])
    show ?thesis
      unfolding unroll ih using Cons
      by (simp add: logged_def exit_def closeQueued_def)
  qed
qed

text \<open>
  The flag after the drain of an iteration: it was set on entry, \<open>step\<close> did not call
  \<open>exit()\<close>, and the drain found no close event.
\<close>

lemma runIteration_eq:
  "runIteration h s =
     (let t = elapsedNow s;
          q = drainQueue h s;
          pops = map (\<lambda>e. OSWindow_popEvent (Some e)) q @ [OSWindow_popEvent None];
          go = (mRunning s \<and> \<not> stepExits h s \<and> \<not> closeAtDrain h s);
          s4 = s\<lparr>mRunning := go,
                 mTimer := (mTimer s)\<lparr>queries := Suc (queries (mTimer s))\<rparr>,
                 mOSWindow := (mOSWindow s)\<lparr>events := []\<rparr>,
                 sample := bodyResult (stepBody h s) (events (mOSWindow s)),
                 calls := calls s @ [Timer_getElapsedTime, Hook_step (t - mPrevTime s) t] @ pops\<rparr>
      in if go
         then (0, s4\<lparr>mPrevTime := t,
                    mRunning := \<not> drawExits h s,
                    mOSWindow := (mOSWindow s)\<lparr>events := arrivals (mOSWindow s) (pumps (mOSWindow s)),
                                               pumps := Suc (pumps (mOSWindow s))\<rparr>,
                    sample := bodyResult (drawBody h s) [],
                    calls := calls s4 @ [Hook_draw, EGLWindow_swap, OSWindow_messageLoop]\<rparr>)
         else (0, s4))"
  by (simp add: runIteration_def getElapsedTime_def elapsedNow_def Let_def drainEvents_eq
      runBody_eq bodyLeaves_Nil logged_def swap_def messageLoop_def closeQueued_def
      stepBody_def stepExits_def drainQueue_def closeAtDrain_def drawBody_def drawExits_def)

lemma runIteration_calls:
  "calls (snd (runIteration h s)) =
     calls s @ [Timer_getElapsedTime, Hook_step (elapsedNow s - mPrevTime s) (elapsedNow s)]
       @ map (\<lambda>e. OSWindow_popEvent (Some e)) (drainQueue h s) @ [OSWindow_popEvent None]
       @ (if mRunning s \<and> \<not> stepExits h s \<and> \<not> closeAtDrain h s
          then [Hook_draw, EGLWindow_swap, OSWindow_messageLoop] else [])"
  by (simp add: runIteration_eq Let_def)

lemma callsDuring_runIteration:
  "callsDuring s (snd (runIteration h s)) =
     [Timer_getElapsedTime, Hook_step (elapsedNow s - mPrevTime s) (elapsedNow s)]
       @ map (\<lambda>e. OSWindow_popEvent (Some e)) (drainQueue h s) @ [OSWindow_popEvent None]
       @ (if mRunning s \<and> \<not> stepExits h s \<and> \<not> closeAtDrain h s
          then [Hook_draw, EGLWindow_swap, OSWindow_messageLoop] else [])"
  by (simp add: callsDuring_def runIteration_calls)

lemma runIteration_mRunning:
  "mRunning (snd (runIteration h s)) =
     (mRunning s \<and> \<not> stepExits h s \<and> \<not> closeAtDrain h s \<and> \<not> drawExits h s)"
  by (auto simp: runIteration_eq Let_def)

lemma runIteration_mPrevTime:
  "mPrevTime (snd (runIteration h s)) =
     (if mRunning s \<and> \<not> stepExits h s \<and> \<not> closeAtDrain h s then elapsedNow s else mPrevTime s)"
  by (simp add: runIteration_eq Let_def)

lemma runIteration_mOSWindow:
  "mOSWindow (snd (runIteration h s)) =
     (if mRunning s \<and> \<not> stepExits h s \<and> \<not> closeAtDrain h s
      then (mOSWindow s)\<lparr>events := arrivals (mOSWindow s) (pumps (mOSWindow s)),
                         pumps := Suc (pumps (mOSWindow s))\<rparr>
      else (mOSWindow s)\<lparr>events := []\<rparr>)"
  by (simp add: runIteration_eq Let_def)

lemma isClosePop_pops:
  "list_ex isClosePop (map (\<lambda>e. OSWindow_popEvent (Some e)) es)
     = list_ex (\<lambda>e. Type e = EVENT_CLOSED) es"
  by (induction es) simp_all

lemma closePopped_runIteration:
  "closePopped s (snd (runIteration h s)) = closeAtDrain h s"
  by (simp add: closePopped_def callsDuring_runIteration isClosePop_pops closeAtDrain_def)

section \<open>Preparation\<close>

lemma prepareToRun_fst:
  "fst (prepareToRun h s) =
     (if initializeGL_ok (mEGLWindow s) \<and> setSwapInterval_ok (mEGLWindow s)
         \<and> initializeReports h s then 0 else - 1)"
  by (simp add: prepareToRun_def Let_def logged_def runBody_eq initializeReports_def
      initializeBody_def)

lemma prepareToRun_mRunning:
  "mRunning (snd (prepareToRun h s)) =
     (if initializeGL_ok (mEGLWindow s) \<and> setSwapInterval_ok (mEGLWindow s)
      then initializeReports h s \<and> \<not> initializeExits h s else mRunning s)"
  by (simp add: prepareToRun_def Let_def logged_def runBody_eq initializeReports_def
      initializeExits_def initializeBody_def)

lemma prepareToRun_mOSWindow:
  "mOSWindow (snd (prepareToRun h s)) =
     (if initializeGL_ok (mEGLWindow s) \<and> setSwapInterval_ok (mEGLWindow s)
      then (mOSWindow s)\<lparr>visible := True,
             events := bodyLeaves (initializeBody h s) (events (mOSWindow s))\<rparr>
      else (mOSWindow s)\<lparr>visible := True\<rparr>)"
  by (simp add: prepareToRun_def Let_def logged_def runBody_eq initializeBody_def)

lemma prepareToRun_mEGLWindow: "mEGLWindow (snd (prepareToRun h s)) = mEGLWindow s"
  by (simp add: prepareToRun_def Let_def logged_def runBody_eq)

lemma prepareToRun_mPrevTime:
  "mPrevTime (snd (prepareToRun h s)) = (if fst (prepareToRun h s) = 0 then 0 else mPrevTime s)"
  by (simp add: prepareToRun_def Let_def logged_def runBody_eq)

lemma prepareToRun_mTimer:
  "mTimer (snd (prepareToRun h s)) =
     (if fst (prepareToRun h s) = 0 then (mTimer s)\<lparr>started := True\<rparr> else mTimer s)"
  by (simp add: prepareToRun_def Let_def logged_def runBody_eq)

lemma prepareToRun_calls:
  "calls (snd (prepareToRun h s)) =
     calls s
     @ [OSWindow_setVisible True,
        EGLWindow_initializeGL (mPlatformParams s)
          \<lparr>redBits = 8, greenBits = 8, blueBits = 8, alphaBits = 8, depthBits = 24, stencilBits = 8\<rparr>]
     @ (if initializeGL_ok (mEGLWindow s)
        then EGLWindow_setSwapInterval 0
             # (if setSwapInterval_ok (mEGLWindow s)
                then LoadGLES # Hook_initialize
                     # (if initializeReports h s then [Timer_start] else [])
                else [])
        else [])"
  by (simp add: prepareToRun_def Let_def logged_def runBody_eq initializeReports_def
      initializeBody_def)

section \<open>The concrete sample, evaluated\<close>

lemma exampleApp_fields:
  "mRunning exampleApp = False"
  "mOSWindow exampleApp = \<lparr>initialize_ok = True, own_loop = False, visible = False, events = [],
                     pumps = 0, arrivals = exampleArrivals\<rparr>"
  "mEGLWindow exampleApp = \<lparr>glesMajorVersion = 2, glesMinorVersion = 0, initializeGL_ok = True,
                      setSwapInterval_ok = True\<rparr>"
  "mTimer exampleApp = \<lparr>started = False, queries = 0, reading = exampleClock\<rparr>"
  "mPrevTime exampleApp = 0"
  "sample exampleApp = ()"
  "calls exampleApp = []"
  "mName exampleApp = ''hello_triangle''"
  "mWidth exampleApp = 1280"
  "mHeight exampleApp = 720"
  "mPlatformParams exampleApp = \<lparr>renderer = EGL_PLATFORM_ANGLE_TYPE_VULKAN_ANGLE,
                       deviceType = EGL_PLATFORM_ANGLE_DEVICE_TYPE_HARDWARE_ANGLE\<rparr>"
  by (simp_all add: exampleApp_def SampleApplication_def Let_def exampleEnvironment_def
      strlen_def kUseAngleArg_def GetDisplayTypeFromArg_def kDisplayTypes_def
      GetDeviceTypeFromArg_def)

lemma exampleApp_prepared: "fst (prepareToRun SampleApplication_hooks exampleApp) = 0"
  by (simp add: prepareToRun_fst exampleApp_fields base_hooks)

lemma exampleStarted_fields:
  "mRunning exampleStarted"
  "events (mOSWindow exampleStarted) = []"
  "pumps (mOSWindow exampleStarted) = 0"
  "arrivals (mOSWindow exampleStarted) = exampleArrivals"
  "mPrevTime exampleStarted = 0"
  "elapsedNow exampleStarted = 1"
  "setSwapInterval_ok (mEGLWindow exampleStarted)"
  by (simp_all add: exampleStarted_def prepareToRun_mRunning prepareToRun_mOSWindow
      prepareToRun_mPrevTime prepareToRun_mTimer prepareToRun_mEGLWindow exampleApp_prepared
      elapsedNow_def getElapsedTime_def exampleClock_def exampleApp_fields base_hooks)

lemma exampleClosing_fields:
  "mRunning exampleClosing"
  "events (mOSWindow exampleClosing) = [\<lparr>Type = EVENT_OTHER 0\<rparr>, \<lparr>Type = EVENT_CLOSED\<rparr>]"
  "mPrevTime exampleClosing = 1"
  by (simp_all add: exampleClosing_def runIteration_mRunning runIteration_mOSWindow
      runIteration_mPrevTime exampleStarted_fields base_hooks closeQueued_def
      exampleArrivals_def)

section \<open>Preparing and iterating\<close>

text \<open>
  C1, as the code has it. \<open>prepareToRun\<close> returns a negative result exactly when the
  context initialisation fails, or disabling vsync fails, or the sample's \<open>initialize\<close>
  reports failure; its result is 0 or -1. When \<open>initialize\<close> is reached and reports
  failure, the running flag is false on return. The two earlier failure returns leave the
  flag as it was on entry, so every failure returns with the flag false when it was false
  on entry. When the result is 0, the flag is true unless \<open>initialize\<close> itself called
  \<open>exit()\<close>.
\<close>

theorem prepareToRun_outcomes:
  "(fst (prepareToRun h s) < 0) =
     (\<not> initializeGL_ok (mEGLWindow s) \<or> \<not> setSwapInterval_ok (mEGLWindow s)
      \<or> \<not> initializeReports h s)
   \<and> (fst (prepareToRun h s) = 0 \<or> fst (prepareToRun h s) = - 1)
   \<and> (initializeGL_ok (mEGLWindow s) \<and> setSwapInterval_ok (mEGLWindow s)
        \<and> \<not> initializeReports h s \<longrightarrow> \<not> mRunning (snd (prepareToRun h s)))
   \<and> (\<not> initializeGL_ok (mEGLWindow s) \<or> \<not> setSwapInterval_ok (mEGLWindow s) \<longrightarrow>
        mRunning (snd (prepareToRun h s)) = mRunning s)
   \<and> (\<not> mRunning s \<and> fst (prepareToRun h s) < 0 \<longrightarrow> \<not> mRunning (snd (prepareToRun h s)))
   \<and> (fst (prepareToRun h s) = 0 \<longrightarrow>
        mRunning (snd (prepareToRun h s)) = (\<not> initializeExits h s))"
  by (auto simp: prepareToRun_fst prepareToRun_mRunning)

lemma exitingHooks_initialize:
  "initializeReports exitingHooks s" "initializeExits exitingHooks s"
  by (simp_all add: exitingHooks_def SampleApplication_hooks_def initializeReports_def
      initializeExits_def initializeBody_def)

lemma failingHooks_initialize: "\<not> initializeReports failingHooks s"
  by (simp add: failingHooks_def SampleApplication_hooks_def initializeReports_def
      initializeBody_def)

lemma exampleContextLost_fields:
  "mRunning exampleContextLost"
  "\<not> initializeGL_ok (mEGLWindow exampleContextLost)"
  by (simp_all add: exampleContextLost_def exampleStarted_fields)

theorem prepareToRun_outcomes_witness:
  "fst (prepareToRun SampleApplication_hooks exampleApp) = 0
   \<and> \<not> initializeExits SampleApplication_hooks exampleApp
   \<and> mRunning (snd (prepareToRun SampleApplication_hooks exampleApp))
   \<and> fst (prepareToRun exitingHooks exampleApp) = 0
   \<and> initializeExits exitingHooks exampleApp
   \<and> \<not> mRunning (snd (prepareToRun exitingHooks exampleApp))
   \<and> initializeGL_ok (mEGLWindow exampleApp) \<and> setSwapInterval_ok (mEGLWindow exampleApp)
   \<and> \<not> initializeReports failingHooks exampleApp
   \<and> fst (prepareToRun failingHooks exampleApp) = - 1
   \<and> \<not> mRunning (snd (prepareToRun failingHooks exampleApp))
   \<and> \<not> mRunning exampleNoContext
   \<and> fst (prepareToRun SampleApplication_hooks exampleNoContext) < 0
   \<and> \<not> mRunning (snd (prepareToRun SampleApplication_hooks exampleNoContext))
   \<and> \<not> initializeGL_ok (mEGLWindow exampleContextLost)
   \<and> mRunning exampleContextLost
   \<and> mRunning (snd (prepareToRun SampleApplication_hooks exampleContextLost))"
proof -
  note ok = exampleApp_prepared
  have quiet: "\<not> initializeExits SampleApplication_hooks exampleApp"
    by (simp add: base_hooks)
  have ok': "fst (prepareToRun exitingHooks exampleApp) = 0"
    by (simp add: prepareToRun_fst exampleApp_fields exitingHooks_initialize)
  have hook: "initializeGL_ok (mEGLWindow exampleApp) \<and> setSwapInterval_ok (mEGLWindow exampleApp)
      \<and> \<not> initializeReports failingHooks exampleApp"
    by (simp add: exampleApp_fields failingHooks_initialize)
  have gl: "\<not> mRunning exampleNoContext
      \<and> fst (prepareToRun SampleApplication_hooks exampleNoContext) < 0"
    by (simp add: prepareToRun_fst exampleNoContext_def exampleApp_fields)
  note lost = exampleContextLost_fields
  from prepareToRun_outcomes [of SampleApplication_hooks exampleApp] ok quiet
  have 1: "mRunning (snd (prepareToRun SampleApplication_hooks exampleApp))"
    by blast
  from prepareToRun_outcomes [of exitingHooks exampleApp] ok' exitingHooks_initialize(2)
  have 2: "\<not> mRunning (snd (prepareToRun exitingHooks exampleApp))"
    by blast
  from prepareToRun_outcomes [of failingHooks exampleApp] hook
  have 3: "fst (prepareToRun failingHooks exampleApp) = - 1
      \<and> \<not> mRunning (snd (prepareToRun failingHooks exampleApp))"
    by auto
  from prepareToRun_outcomes [of SampleApplication_hooks exampleNoContext] gl
  have 4: "\<not> mRunning (snd (prepareToRun SampleApplication_hooks exampleNoContext))"
    by blast
  from prepareToRun_outcomes [of SampleApplication_hooks exampleContextLost] lost
  have 5: "mRunning (snd (prepareToRun SampleApplication_hooks exampleContextLost))"
    by blast
  from ok quiet ok' exitingHooks_initialize(2) hook gl lost 1 2 3 4 5 show ?thesis
    by simp
qed

text \<open>
  C1, as stated, fails twice. On a started sample whose context no longer initialises,
  \<open>prepareToRun\<close> returns -1 and the running flag, true on entry, is still true. With an
  \<open>initialize\<close> that calls \<open>exit()\<close> and reports success, \<open>prepareToRun\<close> returns 0 and the
  flag is false.
\<close>

theorem prepareToRun_failure_keeps_flag:
  "mRunning exampleContextLost
   \<and> \<not> initializeGL_ok (mEGLWindow exampleContextLost)
   \<and> fst (prepareToRun SampleApplication_hooks exampleContextLost) = - 1
   \<and> mRunning (snd (prepareToRun SampleApplication_hooks exampleContextLost))
   \<and> fst (prepareToRun exitingHooks exampleApp) = 0
   \<and> \<not> mRunning (snd (prepareToRun exitingHooks exampleApp))"
  by (simp add: prepareToRun_fst prepareToRun_mRunning exampleContextLost_fields
      exampleApp_fields exitingHooks_initialize)

text \<open>
  C2. Whenever the event drain of a \<open>runIteration\<close> call pops a close event, the running
  flag is false when the call returns, and the calls made during it (the log grows by
  exactly those) contain neither the \<open>draw\<close> hook nor the buffer swap.
\<close>

theorem runIteration_close_event_stops:
  assumes "closePopped s (snd (runIteration h s))"
  shows "\<not> mRunning (snd (runIteration h s))
       \<and> calls (snd (runIteration h s)) = calls s @ callsDuring s (snd (runIteration h s))
       \<and> Hook_draw \<notin> set (callsDuring s (snd (runIteration h s)))
       \<and> EGLWindow_swap \<notin> set (callsDuring s (snd (runIteration h s)))"
proof -
  from assms have queued: "closeAtDrain h s"
    by (simp add: closePopped_runIteration)
  show ?thesis
  proof (intro conjI)
    show "\<not> mRunning (snd (runIteration h s))"
      using queued by (simp add: runIteration_mRunning)
    show "calls (snd (runIteration h s)) = calls s @ callsDuring s (snd (runIteration h s))"
      by (simp add: callsDuring_def runIteration_calls)
    show "Hook_draw \<notin> set (callsDuring s (snd (runIteration h s)))"
      using queued by (auto simp: callsDuring_runIteration)
    show "EGLWindow_swap \<notin> set (callsDuring s (snd (runIteration h s)))"
      using queued by (auto simp: callsDuring_runIteration)
  qed
qed

theorem runIteration_close_event_stops_witness:
  "closePopped exampleClosing (snd (runIteration SampleApplication_hooks exampleClosing))
   \<and> mRunning exampleClosing
   \<and> \<not> mRunning (snd (runIteration SampleApplication_hooks exampleClosing))
   \<and> Hook_draw \<notin> set (callsDuring exampleClosing
        (snd (runIteration SampleApplication_hooks exampleClosing)))
   \<and> EGLWindow_swap \<notin> set (callsDuring exampleClosing
        (snd (runIteration SampleApplication_hooks exampleClosing)))"
proof -
  have popped: "closePopped exampleClosing (snd (runIteration SampleApplication_hooks exampleClosing))"
    by (simp add: closePopped_runIteration base_hooks closeQueued_def exampleClosing_fields)
  from runIteration_close_event_stops [OF popped] popped exampleClosing_fields(1)
  show ?thesis by simp
qed

text \<open>
  C9. \<open>runIteration\<close> returns 0 from every state, whatever the queue holds: also when the
  running flag is false on entry and when a close event stops the iteration. The explicit
  loop of \<open>run\<close> goes on from the state the iteration leaves and does not look at the result.
\<close>

theorem runIteration_returns_zero:
  "fst (runIteration h s) = 0
   \<and> runLoop h (Suc n) s = (if mRunning s then runLoop h n (snd (runIteration h s)) else Some s)"
  by (simp add: runIteration_eq Let_def)

theorem runIteration_returns_zero_witness:
  "\<not> mRunning exampleApp \<and> fst (runIteration SampleApplication_hooks exampleApp) = 0
   \<and> closeQueued exampleClosing \<and> fst (runIteration SampleApplication_hooks exampleClosing) = 0"
  using runIteration_returns_zero [of SampleApplication_hooks exampleApp 0]
    runIteration_returns_zero [of SampleApplication_hooks exampleClosing 0]
  by (simp add: exampleApp_fields exampleClosing_fields closeQueued_def)




section \<open>The running flag\<close>

text \<open>
  C7. \<open>exit()\<close> is idempotent: calling it twice leaves the same state as calling it once,
  and on a state whose running flag is already false it changes nothing.
\<close>

theorem exit_idempotent:
  "exit (exit s) = exit s \<and> (\<not> mRunning s \<longrightarrow> exit s = s) \<and> \<not> mRunning (exit s)"
  by (simp add: exit_def)

theorem exit_idempotent_witness:
  "\<not> mRunning exampleApp \<and> exit exampleApp = exampleApp
   \<and> mRunning exampleStarted \<and> exit (exit exampleStarted) = exit exampleStarted"
  using exit_idempotent [of exampleApp] exit_idempotent [of exampleStarted]
    exampleApp_fields(1) exampleStarted_fields(1)
  by simp

lemma perform_keeps_running:
  assumes "mRunning (perform h operation s)"
  shows "(\<exists>before. observe h operation s = before @ [Prepared])
     \<or> (mRunning s \<and> CloseSeen \<notin> set (observe h operation s)
          \<and> Exited \<notin> set (observe h operation s))"
proof (cases operation)
  case PrepareToRun
  with assms show ?thesis
    by (auto simp: prepareToRun_fst prepareToRun_mRunning split: if_splits)
next
  case RunIteration
  with assms show ?thesis
    by (simp add: runIteration_mRunning)
next
  case Exit
  with assms show ?thesis
    by (simp add: exit_def)
next
  case (Outside w g t u)
  with assms show ?thesis
    by simp
qed

lemma history_running:
  "mRunning (snd (history h ops s)) \<Longrightarrow>
     (mRunning s \<and> CloseSeen \<notin> set (fst (history h ops s))
        \<and> Exited \<notin> set (fst (history h ops s)))
     \<or> (\<exists>before after. fst (history h ops s) = before @ [Prepared] @ after
          \<and> CloseSeen \<notin> set after \<and> Exited \<notin> set after)"
proof (induction ops arbitrary: s)
  case Nil
  then show ?case by simp
next
  case (Cons operation rest)
  let ?s1 = "perform h operation s"
  let ?now = "observe h operation s"
  let ?obs = "fst (history h rest ?s1)"
  have whole: "fst (history h (operation # rest) s) = ?now @ ?obs"
    by (simp add: Let_def)
  from Cons.prems have running: "mRunning (snd (history h rest ?s1))"
    by (simp add: Let_def)
  from Cons.IH [OF running]
  consider (kept) "mRunning ?s1" "CloseSeen \<notin> set ?obs" "Exited \<notin> set ?obs"
    | (later) before after where "?obs = before @ [Prepared] @ after"
        "CloseSeen \<notin> set after" "Exited \<notin> set after"
    by blast
  then show ?case
  proof cases
    case kept
    from perform_keeps_running [OF kept(1)]
    show ?thesis
    proof
      assume "\<exists>before. ?now = before @ [Prepared]"
      then obtain before where "?now = before @ [Prepared]" ..
      then have "fst (history h (operation # rest) s) = before @ [Prepared] @ ?obs"
        unfolding whole by simp
      with kept show ?thesis by blast
    next
      assume "mRunning s \<and> CloseSeen \<notin> set ?now \<and> Exited \<notin> set ?now"
      with kept have "mRunning s \<and> CloseSeen \<notin> set (?now @ ?obs) \<and> Exited \<notin> set (?now @ ?obs)"
        by simp
      then show ?thesis
        unfolding whole by blast
    qed
  next
    case later
    then have "fst (history h (operation # rest) s) = (?now @ before) @ [Prepared] @ after"
      unfolding whole by simp
    with later show ?thesis by blast
  qed
qed

text \<open>
  C6, as the code has it. The running flag is false right after construction, true right
  after a \<open>prepareToRun\<close> that returns 0 unless \<open>initialize\<close> itself called \<open>exit()\<close>, and
  false after \<open>exit()\<close> from any state; an iteration whose drain finds a close event
  returns with the flag false. In every state reached from construction by calls of
  \<open>prepareToRun\<close>, \<open>runIteration\<close> and \<open>exit\<close> (with the collaborators changing in any way
  in between), the flag is true only if some earlier \<open>prepareToRun\<close> returned 0 and since
  then no drain has found a close event and \<open>exit()\<close> has not been called, neither from
  outside nor by a hook.
\<close>

theorem running_lifecycle:
  "\<not> mRunning (SampleApplication name argv major minor width height env)
   \<and> (fst (prepareToRun h s) = 0 \<and> \<not> initializeExits h s \<longrightarrow> mRunning (snd (prepareToRun h s)))
   \<and> \<not> mRunning (exit s)
   \<and> (closeAtDrain h s \<longrightarrow> \<not> mRunning (snd (runIteration h s)))
   \<and> (mRunning (snd (history h ops (SampleApplication name argv major minor width height env))) \<longrightarrow>
        (\<exists>before after.
           fst (history h ops (SampleApplication name argv major minor width height env))
             = before @ [Prepared] @ after
           \<and> CloseSeen \<notin> set after \<and> Exited \<notin> set after))"
proof (intro conjI impI)
  show fresh: "\<not> mRunning (SampleApplication name argv major minor width height env)"
    by (simp add: SampleApplication_def Let_def)
  show "mRunning (snd (prepareToRun h s))"
    if "fst (prepareToRun h s) = 0 \<and> \<not> initializeExits h s"
    using that by (simp add: prepareToRun_fst prepareToRun_mRunning split: if_splits)
  show "\<not> mRunning (exit s)"
    by (simp add: exit_def)
  show "\<not> mRunning (snd (runIteration h s))" if "closeAtDrain h s"
    using that by (simp add: runIteration_mRunning)
  show "\<exists>before after.
           fst (history h ops (SampleApplication name argv major minor width height env))
             = before @ [Prepared] @ after
           \<and> CloseSeen \<notin> set after \<and> Exited \<notin> set after"
    if "mRunning (snd (history h ops (SampleApplication name argv major minor width height env)))"
    using history_running [OF that] fresh by blast
qed

lemma exampleApp_history:
  "history SampleApplication_hooks [PrepareToRun, RunIteration] exampleApp
     = ([Prepared, Iterated], exampleClosing)"
  "fst (history SampleApplication_hooks [PrepareToRun, RunIteration, RunIteration] exampleApp)
     = [Prepared, Iterated, CloseSeen]"
  "\<not> mRunning (snd (history SampleApplication_hooks
       [PrepareToRun, RunIteration, RunIteration] exampleApp))"
  using exampleStarted_fields exampleClosing_fields
  by (simp_all add: Let_def exampleApp_prepared base_hooks closeQueued_def
      runIteration_mRunning exampleApp_fields
      exampleClosing_def [symmetric] exampleStarted_def [symmetric])

theorem running_lifecycle_witness:
  "fst (prepareToRun SampleApplication_hooks exampleApp) = 0
   \<and> \<not> initializeExits SampleApplication_hooks exampleApp
   \<and> mRunning (snd (prepareToRun SampleApplication_hooks exampleApp))
   \<and> closeAtDrain SampleApplication_hooks exampleClosing
   \<and> \<not> mRunning (snd (runIteration SampleApplication_hooks exampleClosing))
   \<and> mRunning (snd (history SampleApplication_hooks [PrepareToRun, RunIteration] exampleApp))
   \<and> fst (history SampleApplication_hooks [PrepareToRun, RunIteration] exampleApp)
        = [Prepared, Iterated]
   \<and> (\<exists>before after.
         fst (history SampleApplication_hooks [PrepareToRun, RunIteration] exampleApp)
           = before @ [Prepared] @ after
         \<and> CloseSeen \<notin> set after \<and> Exited \<notin> set after)
   \<and> fst (history SampleApplication_hooks [PrepareToRun, RunIteration, RunIteration] exampleApp)
        = [Prepared, Iterated, CloseSeen]
   \<and> \<not> mRunning (snd (history SampleApplication_hooks
         [PrepareToRun, RunIteration, RunIteration] exampleApp))"
proof -
  note lifecycle = running_lifecycle [of "''hello_triangle''" "[''prog'', ''--use-angle=vulkan'']"
      2 0 1280 720 exampleEnvironment SampleApplication_hooks _
      "[PrepareToRun, RunIteration]", folded exampleApp_def]
  note ok = exampleApp_prepared
  have quiet: "\<not> initializeExits SampleApplication_hooks exampleApp"
    by (simp add: base_hooks)
  have close: "closeAtDrain SampleApplication_hooks exampleClosing"
    by (simp add: base_hooks closeQueued_def exampleClosing_fields)
  have running: "mRunning (snd (history SampleApplication_hooks [PrepareToRun, RunIteration] exampleApp))"
    by (simp only: exampleApp_history snd_conv exampleClosing_fields)
  have seen: "fst (history SampleApplication_hooks [PrepareToRun, RunIteration] exampleApp)
        = [Prepared, Iterated]"
    by (simp only: exampleApp_history fst_conv)
  from lifecycle [of exampleApp] ok quiet
  have 1: "mRunning (snd (prepareToRun SampleApplication_hooks exampleApp))"
    by blast
  from lifecycle [of exampleClosing] close
  have 2: "\<not> mRunning (snd (runIteration SampleApplication_hooks exampleClosing))"
    by blast
  from lifecycle [of exampleApp] running
  have 3: "\<exists>before after.
         fst (history SampleApplication_hooks [PrepareToRun, RunIteration] exampleApp)
           = before @ [Prepared] @ after
         \<and> CloseSeen \<notin> set after \<and> Exited \<notin> set after"
    by blast
  from ok quiet close running seen 1 2 3 exampleApp_history(2,3) show ?thesis
    by simp
qed

text \<open>
  C6, as stated, fails: with an \<open>initialize\<close> that calls \<open>exit()\<close> and reports success,
  \<open>prepareToRun\<close> returns 0 on the constructed sample, and the running flag is false
  right after it.
\<close>

theorem prepareToRun_success_after_hook_exit:
  "\<not> mRunning exampleApp
   \<and> fst (prepareToRun exitingHooks exampleApp) = 0
   \<and> fst (history exitingHooks [PrepareToRun] exampleApp) = [Exited, Prepared]
   \<and> \<not> mRunning (snd (history exitingHooks [PrepareToRun] exampleApp))"
  by (simp add: Let_def prepareToRun_fst prepareToRun_mRunning exampleApp_fields
      exitingHooks_initialize)

section \<open>The whole run\<close>

lemma teardown_calls:
  "calls (teardown h s) = calls s @ [Hook_destroy, EGLWindow_destroyGL, OSWindow_destroy]"
  by (simp add: teardown_def Let_def logged_def runBody_eq)

lemma teardown_mRunning:
  "mRunning (teardown h s) = (mRunning s \<and> \<not> bodyExits (destroy h (sample s)) (events (mOSWindow s)))"
  by (simp add: teardown_def Let_def logged_def runBody_eq)

lemma runLoop_stopped: "runLoop h n s = Some s' \<Longrightarrow> \<not> mRunning s'"
  by (induction n arbitrary: s) (auto split: if_splits)

lemma run_window_ok:
  "initialize_ok (mOSWindow s) \<Longrightarrow>
   run h runOwnLoop fuel s =
     (case loopPhase h runOwnLoop fuel
             (logged (OSWindow_initialize (mName s) (mWidth s) (mHeight s)) s) of
        None \<Rightarrow> None
      | Some (Inl returned) \<Rightarrow> Some returned
      | Some (Inr (result, s2)) \<Rightarrow> Some (result, teardown h s2))"
  by (simp add: run_def Let_def logged_def)

lemma loopPhase_Inl:
  "loopPhase h runOwnLoop fuel s = Some (Inl (result, s')) \<Longrightarrow>
     \<not> own_loop (mOSWindow s) \<and> result \<noteq> 0"
  by (auto simp: loopPhase_def Let_def logged_def split: if_splits option.splits prod.splits)

lemma loopPhase_Inr:
  "loopPhase h runOwnLoop fuel s = Some (Inr (result, s')) \<Longrightarrow>
     own_loop (mOSWindow s) \<or> \<not> mRunning s'"
  by (auto simp: loopPhase_def Let_def logged_def runLoop_stopped
      split: if_splits option.splits prod.splits)

lemma run_explicit_prepare_failure:
  assumes "initialize_ok (mOSWindow s)" and "\<not> own_loop (mOSWindow s)"
    and "s1 = logged OSWindow_hasOwnLoop (logged (OSWindow_initialize (mName s) (mWidth s) (mHeight s)) s)"
    and "fst (prepareToRun h s1) \<noteq> 0"
  shows "run h runOwnLoop fuel s = Some (prepareToRun h s1)"
  using assms by (simp add: run_def loopPhase_def Let_def logged_def case_prod_beta)

lemma run_explicit_prepared:
  assumes "initialize_ok (mOSWindow s)" and "\<not> own_loop (mOSWindow s)"
    and "s1 = logged OSWindow_hasOwnLoop (logged (OSWindow_initialize (mName s) (mWidth s) (mHeight s)) s)"
    and "fst (prepareToRun h s1) = 0"
  shows "run h runOwnLoop fuel s =
     map_option (\<lambda>s3. (0, teardown h s3)) (runLoop h fuel (snd (prepareToRun h s1)))"
  using assms
  by (simp add: run_def loopPhase_def Let_def logged_def case_prod_beta split: option.splits)

lemma run_own_loop:
  assumes "initialize_ok (mOSWindow s)" and "own_loop (mOSWindow s)"
    and "s1 = logged OSWindow_runOwnLoop (logged OSWindow_hasOwnLoop
           (logged (OSWindow_initialize (mName s) (mWidth s) (mHeight s)) s))"
  shows "run h runOwnLoop fuel s =
     map_option (\<lambda>r. (fst r, teardown h (snd r))) (runOwnLoop (prepareToRun h) (runIteration h) s1)"
  using assms
  by (simp add: run_def loopPhase_def Let_def logged_def case_prod_beta split: option.splits)

lemma exampleReady_fields:
  "mRunning exampleReady = False"
  "mOSWindow exampleReady = mOSWindow exampleApp"
  "mEGLWindow exampleReady = mEGLWindow exampleApp"
  "sample exampleReady = ()"
  "mPlatformParams exampleReady = mPlatformParams exampleApp"
  "calls exampleReady = [OSWindow_initialize ''hello_triangle'' 1280 720, OSWindow_hasOwnLoop]"
  by (simp_all add: exampleReady_def logged_def exampleApp_fields)

lemma run_exampleApp:
  "run SampleApplication_hooks exampleOwnLoop 2 exampleApp = Some (0, exampleFinished)"
proof -
  let ?h = "SampleApplication_hooks :: unit hooks"
  let ?s2 = "snd (prepareToRun ?h exampleReady)"
  let ?s3 = "snd (runIteration ?h ?s2)"
  let ?s4 = "snd (runIteration ?h ?s3)"
  have prepared: "fst (prepareToRun ?h exampleReady) = 0"
    by (simp add: prepareToRun_fst exampleReady_fields exampleApp_fields base_hooks)
  have r2: "mRunning ?s2" "\<not> closeQueued ?s2"
    by (simp_all add: prepareToRun_mRunning prepareToRun_mOSWindow closeQueued_def
        exampleReady_fields exampleApp_fields base_hooks)
  have r3: "mRunning ?s3" "closeQueued ?s3"
    using r2
    by (simp_all add: runIteration_mRunning runIteration_mOSWindow prepareToRun_mOSWindow
        closeQueued_def exampleReady_fields exampleApp_fields exampleArrivals_def base_hooks)
  have r4: "\<not> mRunning ?s4"
    using r3 by (simp add: runIteration_mRunning base_hooks)
  have loop: "runLoop ?h (Suc (Suc 0)) ?s2 = Some ?s4"
    using r2 r3 r4 by simp
  have "run ?h exampleOwnLoop 2 exampleApp =
      map_option (\<lambda>s3. (0, teardown ?h s3)) (runLoop ?h 2 ?s2)"
    by (rule run_explicit_prepared)
       (simp_all add: exampleApp_fields exampleReady_def prepared [unfolded exampleReady_def])
  also have "runLoop ?h 2 ?s2 = Some ?s4"
    using loop by (simp only: numeral_2_eq_2)
  finally show ?thesis
    by (simp only: exampleFinished_def option.map)
qed

lemma run_exampleOwnLoopApp:
  "run SampleApplication_hooks exampleOwnLoop 0 exampleOwnLoopApp = Some (0, exampleOwnLoopFinished)"
proof -
  let ?h = "SampleApplication_hooks :: unit hooks"
  let ?s1 = "logged OSWindow_runOwnLoop (logged OSWindow_hasOwnLoop
      (logged (OSWindow_initialize ''hello_triangle'' 1280 720) exampleOwnLoopApp))"
  have prepared: "fst (prepareToRun ?h ?s1) = 0"
    by (simp add: prepareToRun_fst logged_def exampleOwnLoopApp_def exampleApp_fields
        base_hooks)
  have "run ?h exampleOwnLoop 0 exampleOwnLoopApp =
      map_option (\<lambda>r. (fst r, teardown ?h (snd r)))
        (exampleOwnLoop (prepareToRun ?h) (runIteration ?h) ?s1)"
    by (rule run_own_loop) (simp_all add: exampleOwnLoopApp_def exampleApp_fields)
  also have "exampleOwnLoop (prepareToRun ?h) (runIteration ?h) ?s1
      = Some (0, snd (runIteration ?h (snd (prepareToRun ?h ?s1))))"
    using prepared by (simp add: exampleOwnLoop_def case_prod_beta)
  finally show ?thesis
    by (simp add: exampleOwnLoopFinished_def)
qed

lemma run_exampleNoContext:
  "run SampleApplication_hooks exampleOwnLoop 0 exampleNoContext =
     Some (prepareToRun SampleApplication_hooks
        (logged OSWindow_hasOwnLoop
          (logged (OSWindow_initialize ''hello_triangle'' 1280 720) exampleNoContext)))"
  by (rule run_explicit_prepare_failure)
     (simp_all add: prepareToRun_fst logged_def exampleNoContext_def exampleApp_fields)

text \<open>
  C8, as the code has it. Whenever \<open>run\<close> returns after the window was initialised and the
  loop phase was entered and ended (through the window's own loop with any result, or
  through the explicit loop, which is entered only after \<open>prepareToRun\<close> returned 0 and so
  ends with result 0), the last three calls are the \<open>destroy\<close> hook, \<open>destroyGL\<close> and the
  window's \<open>destroy\<close>, in this order; after the explicit loop the running flag is false.
\<close>

theorem run_teardown_after_loop:
  assumes returns: "run h runOwnLoop fuel s = Some (result, s')"
    and window: "initialize_ok (mOSWindow s)"
    and phase: "own_loop (mOSWindow s) \<or> result = 0"
  shows "(\<exists>before. calls s' = before @ [Hook_destroy, EGLWindow_destroyGL, OSWindow_destroy])
       \<and> (own_loop (mOSWindow s) \<or> \<not> mRunning s')"
proof -
  let ?s1 = "logged (OSWindow_initialize (mName s) (mWidth s) (mHeight s)) s"
  have same: "own_loop (mOSWindow ?s1) = own_loop (mOSWindow s)"
    by (simp add: logged_def)
  from returns window
  consider (early) "loopPhase h runOwnLoop fuel ?s1 = Some (Inl (result, s'))"
    | (through) s2 where "loopPhase h runOwnLoop fuel ?s1 = Some (Inr (result, s2))"
        "s' = teardown h s2"
    by (auto simp: run_window_ok split: option.splits sum.splits prod.splits)
  then show ?thesis
  proof cases
    case early
    from loopPhase_Inl [OF early] phase same show ?thesis
      by simp
  next
    case through
    from loopPhase_Inr [OF through(1)] same
    have "own_loop (mOSWindow s) \<or> \<not> mRunning s'"
      by (auto simp: through(2) teardown_mRunning)
    moreover have "calls s' = calls s2 @ [Hook_destroy, EGLWindow_destroyGL, OSWindow_destroy]"
      by (simp add: through(2) teardown_calls)
    ultimately show ?thesis
      by blast
  qed
qed

theorem run_teardown_after_loop_witness:
  "run SampleApplication_hooks exampleOwnLoop 2 exampleApp = Some (0, exampleFinished)
   \<and> initialize_ok (mOSWindow exampleApp)
   \<and> \<not> own_loop (mOSWindow exampleApp)
   \<and> (\<exists>before. calls exampleFinished = before @ [Hook_destroy, EGLWindow_destroyGL, OSWindow_destroy])
   \<and> \<not> mRunning exampleFinished
   \<and> run SampleApplication_hooks exampleOwnLoop 0 exampleOwnLoopApp = Some (0, exampleOwnLoopFinished)
   \<and> initialize_ok (mOSWindow exampleOwnLoopApp)
   \<and> own_loop (mOSWindow exampleOwnLoopApp)
   \<and> (\<exists>before. calls exampleOwnLoopFinished
         = before @ [Hook_destroy, EGLWindow_destroyGL, OSWindow_destroy])"
proof -
  have window: "initialize_ok (mOSWindow exampleApp)" and explicit: "\<not> own_loop (mOSWindow exampleApp)"
    by (simp_all add: exampleApp_fields)
  have window': "initialize_ok (mOSWindow exampleOwnLoopApp)" and own: "own_loop (mOSWindow exampleOwnLoopApp)"
    by (simp_all add: exampleOwnLoopApp_def exampleApp_fields)
  from run_teardown_after_loop [OF run_exampleApp window] explicit
  have first: "(\<exists>before. calls exampleFinished = before @ [Hook_destroy, EGLWindow_destroyGL, OSWindow_destroy])
      \<and> \<not> mRunning exampleFinished"
    by simp
  from run_teardown_after_loop [OF run_exampleOwnLoopApp window'] own
  have second: "\<exists>before. calls exampleOwnLoopFinished
      = before @ [Hook_destroy, EGLWindow_destroyGL, OSWindow_destroy]"
    by simp
  from first second window explicit window' own run_exampleApp run_exampleOwnLoopApp
  show ?thesis
    by simp
qed

text \<open>
  C8, as stated, fails: on a window without a loop of its own whose context cannot be
  initialised, \<open>run\<close> returns -1 after the window was initialised, and the calls it made end
  with \<open>initializeGL\<close>: none of the three tear-down calls is made.
\<close>

theorem run_prepare_failure_returns_early:
  "initialize_ok (mOSWindow exampleNoContext)
   \<and> \<not> own_loop (mOSWindow exampleNoContext)
   \<and> run SampleApplication_hooks exampleOwnLoop 0 exampleNoContext = Some (- 1, exampleReturnedEarly)
   \<and> calls exampleReturnedEarly =
       [OSWindow_initialize ''hello_triangle'' 1280 720,
        OSWindow_hasOwnLoop,
        OSWindow_setVisible True,
        EGLWindow_initializeGL
          \<lparr>renderer = EGL_PLATFORM_ANGLE_TYPE_VULKAN_ANGLE,
           deviceType = EGL_PLATFORM_ANGLE_DEVICE_TYPE_HARDWARE_ANGLE\<rparr>
          \<lparr>redBits = 8, greenBits = 8, blueBits = 8, alphaBits = 8, depthBits = 24,
           stencilBits = 8\<rparr>]
   \<and> Hook_destroy \<notin> set (calls exampleReturnedEarly)
   \<and> EGLWindow_destroyGL \<notin> set (calls exampleReturnedEarly)
   \<and> OSWindow_destroy \<notin> set (calls exampleReturnedEarly)"
proof -
  let ?s1 = "logged OSWindow_hasOwnLoop
      (logged (OSWindow_initialize ''hello_triangle'' 1280 720) exampleNoContext)"
  have fields: "initializeGL_ok (mEGLWindow ?s1) = False" "calls ?s1 =
      [OSWindow_initialize ''hello_triangle'' 1280 720, OSWindow_hasOwnLoop]"
    "mPlatformParams ?s1 = \<lparr>renderer = EGL_PLATFORM_ANGLE_TYPE_VULKAN_ANGLE,
           deviceType = EGL_PLATFORM_ANGLE_DEVICE_TYPE_HARDWARE_ANGLE\<rparr>"
    by (simp_all add: logged_def exampleNoContext_def exampleApp_fields)
  have result: "fst (prepareToRun SampleApplication_hooks ?s1) = - 1"
    by (simp add: prepareToRun_fst fields)
  have returned: "run SampleApplication_hooks exampleOwnLoop 0 exampleNoContext
      = Some (- 1, exampleReturnedEarly)"
    unfolding run_exampleNoContext exampleReturnedEarly_def
    using result by (simp add: prod_eq_iff)
  have made: "calls exampleReturnedEarly =
       [OSWindow_initialize ''hello_triangle'' 1280 720,
        OSWindow_hasOwnLoop,
        OSWindow_setVisible True,
        EGLWindow_initializeGL
          \<lparr>renderer = EGL_PLATFORM_ANGLE_TYPE_VULKAN_ANGLE,
           deviceType = EGL_PLATFORM_ANGLE_DEVICE_TYPE_HARDWARE_ANGLE\<rparr>
          \<lparr>redBits = 8, greenBits = 8, blueBits = 8, alphaBits = 8, depthBits = 24,
           stencilBits = 8\<rparr>]"
    unfolding exampleReturnedEarly_def by (simp add: prepareToRun_calls fields)
  have window: "initialize_ok (mOSWindow exampleNoContext)" "\<not> own_loop (mOSWindow exampleNoContext)"
    by (simp_all add: exampleNoContext_def exampleApp_fields)
  from window returned made show ?thesis
    by simp
qed

end
